theory Spec2Isabelle
  imports Complex_Main
begin

section \<open>Numbers and tables\<close>

text \<open>
  The programs compute on Python floats held in pandas columns. Floats are
  modelled as real numbers: sums, products and quotients are exact, without
  the rounding of doubles, and the non-finite values (nan, inf) are left out
  of the model. The float constant \<open>1e-12\<close> of the code is the double it
  denotes. Python integers are \<open>int\<close>.

  A monthly column read from an upstream table is a map from \<open>Month_Index\<close>
  to the cell: \<open>None\<close> is a month the table does not have, or a cell that is
  empty. \<open>reindex(months).fillna(0.0)\<close> reads such a column at the given
  months and puts 0 where there is no value.
\<close>

type_synonym series = "int \<rightharpoonup> real"

definition reindex_fillna :: "series \<Rightarrow> int list \<Rightarrow> real list" where
  "reindex_fillna s months = map (\<lambda>m. case s m of None \<Rightarrow> 0 | Some v \<Rightarrow> v) months"

text \<open>\<open>np.cumsum\<close>: the running sums of an array.\<close>

fun cumsum_from :: "real \<Rightarrow> real list \<Rightarrow> real list" where
  "cumsum_from acc [] = []"
| "cumsum_from acc (x # xs) = (acc + x) # cumsum_from (acc + x) xs"

definition cumsum :: "real list \<Rightarrow> real list" where
  "cumsum xs = cumsum_from 0 xs"


section \<open>The junior cash waterfall of \<open>run_m7_5b\<close>\<close>

text \<open>
  \<open>modules/m7_5b_rebuild/runner.py\<close>, function \<open>run_m7_5b\<close>, from the
  aggregation of the junior schedule to the rebuilt balance sheet. The
  inputs are the tables as they stand after loading and role resolution:
  the junior schedule \<open>df_j\<close> (one row per flow), the CFO column of M5, the
  interest-paid and principal-paid columns of M3 and the tax-paid column of
  M4 (each \<open>None\<close> when the file or the columns are not there, in which case
  the runner warns and uses zeros), the cash and total-assets columns of M6,
  the sorted distinct months of M6, and the classification of the selected
  instrument.
\<close>

record junior_flow =
  jf_Month_Index :: int
  Flow_Type :: string
  Amount_NAD_000 :: real

record m7_5b_in =
  months :: "int list"
  df_j :: "junior_flow list"
  m5_cfo :: series
  m3_int_prin :: "(series \<times> series) option"
  m4_tax :: "series option"
  m6_cash :: series
  m6_atot :: series
  classification :: string

definition JUNIOR_FLOW_IN_TYPES :: "string list" where
  "JUNIOR_FLOW_IN_TYPES = [''Equity_In'', ''Note_Draw'']"

definition JUNIOR_FLOW_OUT_TYPES :: "string list" where
  "JUNIOR_FLOW_OUT_TYPES =
     [''Pref_Dividend'', ''RevShare_Out'', ''Buyout_At_Refi'', ''Buyout'', ''Dividend_Paid'']"

definition JUNIOR_FLOW_NONCASH_LIAB_UP :: "string list" where
  "JUNIOR_FLOW_NONCASH_LIAB_UP = [''PIK_Accrual'']"

definition JUNIOR_FLOW_CONVERSION :: "string list" where
  "JUNIOR_FLOW_CONVERSION = [''Note_Convert'']"

text \<open>
  One column of \<open>agg\<close>: the flows of the given types, grouped by month and
  summed, aligned on the months, with 0 for a month that has no such flow.
\<close>

definition agg_col :: "string list \<Rightarrow> m7_5b_in \<Rightarrow> real list" where
  "agg_col types inp =
     map (\<lambda>m. sum_list (map Amount_NAD_000
                 (filter (\<lambda>f. jf_Month_Index f = m \<and> Flow_Type f \<in> set types) (df_j inp))))
         (months inp)"

definition JUN_IN :: "m7_5b_in \<Rightarrow> real list" where
  "JUN_IN = agg_col JUNIOR_FLOW_IN_TYPES"

definition JUN_PIK :: "m7_5b_in \<Rightarrow> real list" where
  "JUN_PIK = agg_col JUNIOR_FLOW_NONCASH_LIAB_UP"

definition JUN_CONVERT :: "m7_5b_in \<Rightarrow> real list" where
  "JUN_CONVERT = agg_col JUNIOR_FLOW_CONVERSION"

definition CFO :: "m7_5b_in \<Rightarrow> real list" where
  "CFO inp = reindex_fillna (m5_cfo inp) (months inp)"

definition senior_service :: "m7_5b_in \<Rightarrow> real list" where
  "senior_service inp =
     (case m3_int_prin inp of
        None \<Rightarrow> replicate (length (months inp)) 0
      | Some (i_col, p_col) \<Rightarrow>
          map2 (+) (reindex_fillna i_col (months inp)) (reindex_fillna p_col (months inp)))"

definition tax_paid :: "m7_5b_in \<Rightarrow> real list" where
  "tax_paid inp =
     (case m4_tax inp of
        None \<Rightarrow> replicate (length (months inp)) 0
      | Some tp \<Rightarrow> reindex_fillna tp (months inp))"

definition available :: "m7_5b_in \<Rightarrow> real list" where
  "available inp =
     map (max 0) (map2 (-) (map2 (-) (CFO inp) (senior_service inp)) (tax_paid inp))"

definition sched_out :: "m7_5b_in \<Rightarrow> real list" where
  "sched_out = agg_col JUNIOR_FLOW_OUT_TYPES"

definition actual_out :: "m7_5b_in \<Rightarrow> real list" where
  "actual_out inp = map2 min (sched_out inp) (available inp)"

definition unpaid :: "m7_5b_in \<Rightarrow> real list" where
  "unpaid inp = map2 (-) (sched_out inp) (actual_out inp)"

definition cff_nad :: "m7_5b_in \<Rightarrow> real list" where
  "cff_nad inp = map2 (-) (JUN_IN inp) (actual_out inp)"


definition cash_base :: "m7_5b_in \<Rightarrow> real list" where
  "cash_base inp = reindex_fillna (m6_cash inp) (months inp)"

definition cash_rebuilt :: "m7_5b_in \<Rightarrow> real list" where
  "cash_rebuilt inp = map2 (+) (cash_base inp) (cumsum (cff_nad inp))"

definition equity_delta :: "m7_5b_in \<Rightarrow> real list" where
  "equity_delta inp = map2 (-) (JUN_IN inp) (sched_out inp)"

definition payable_eop :: "m7_5b_in \<Rightarrow> real list" where
  "payable_eop inp = cumsum (unpaid inp)"

text \<open>The debt-like roll-forward: \<open>bal += draws[i] + pik[i] - conv[i]\<close>.\<close>

fun liab_roll :: "real \<Rightarrow> real list \<Rightarrow> real list \<Rightarrow> real list \<Rightarrow> real list" where
  "liab_roll bal (d # ds) (p # ps) (c # cs) =
     (bal + (d + p - c)) # liab_roll (bal + (d + p - c)) ds ps cs"
| "liab_roll bal _ _ _ = []"

definition junior_liab_eop :: "m7_5b_in \<Rightarrow> real list" where
  "junior_liab_eop inp =
     (if classification inp = ''equity_like'' then replicate (length (months inp)) 0
      else liab_roll 0 (JUN_IN inp) (JUN_PIK inp) (JUN_CONVERT inp))"

definition junior_equity_eop :: "m7_5b_in \<Rightarrow> real list" where
  "junior_equity_eop inp =
     (if classification inp = ''equity_like'' then cumsum (equity_delta inp)
      else cumsum (map2 (+) (equity_delta inp) (JUN_CONVERT inp)))"

definition other_assets :: "m7_5b_in \<Rightarrow> real list" where
  "other_assets inp = map2 (-) (reindex_fillna (m6_atot inp) (months inp)) (cash_base inp)"

definition assets_total :: "m7_5b_in \<Rightarrow> real list" where
  "assets_total inp = map2 (+) (other_assets inp) (cash_rebuilt inp)"

definition le_total :: "m7_5b_in \<Rightarrow> real list" where
  "le_total inp = assets_total inp"


record balance_sheet_full =
  bs_Month_Index :: "int list"
  Cash_And_Equivalents_NAD_000 :: "real list"
  Junior_Note_Liability_NAD_000 :: "real list"
  Contributed_Equity_Junior_NAD_000 :: "real list"
  Dividends_Payable_or_RevShare_Payable_NAD_000 :: "real list"
  Assets_Total_NAD_000 :: "real list"
  Liabilities_And_Equity_Total_NAD_000 :: "real list"


definition bs :: "m7_5b_in \<Rightarrow> balance_sheet_full" where
  "bs inp =
     \<lparr> bs_Month_Index = months inp,
       Cash_And_Equivalents_NAD_000 = cash_rebuilt inp,
       Junior_Note_Liability_NAD_000 = junior_liab_eop inp,
       Contributed_Equity_Junior_NAD_000 = junior_equity_eop inp,
       Dividends_Payable_or_RevShare_Payable_NAD_000 = payable_eop inp,
       Assets_Total_NAD_000 = assets_total inp,
       Liabilities_And_Equity_Total_NAD_000 = le_total inp \<rparr>"

text \<open>
  The allocation rule in the words of the specification, with its minimum
  cash buffer, for comparison with \<open>available\<close>.
\<close>

definition spec_available :: "real \<Rightarrow> real \<Rightarrow> real \<Rightarrow> real \<Rightarrow> real" where
  "spec_available cfo senior tax buffer = max 0 (cfo - senior - tax - buffer)"

text \<open>A one-month run: CFO 100, senior service 60, tax paid 10, scheduled outflow 50.\<close>

definition example_month :: m7_5b_in where
  "example_month =
     \<lparr> months = [1],
       df_j = [\<lparr> jf_Month_Index = 1, Flow_Type = ''Pref_Dividend'', Amount_NAD_000 = 50 \<rparr>],
       m5_cfo = [1 \<mapsto> 100],
       m3_int_prin = Some ([1 \<mapsto> 20], [1 \<mapsto> 40]),
       m4_tax = Some [1 \<mapsto> 10],
       m6_cash = [1 \<mapsto> 500],
       m6_atot = [1 \<mapsto> 2000],
       classification = ''equity_like'' \<rparr>"

text \<open>Two months with a shortfall of 20 in the first and of 5 in the second.\<close>

definition example_two_months :: m7_5b_in where
  "example_two_months =
     \<lparr> months = [1, 2],
       df_j = [\<lparr> jf_Month_Index = 1, Flow_Type = ''Pref_Dividend'', Amount_NAD_000 = 50 \<rparr>,
               \<lparr> jf_Month_Index = 2, Flow_Type = ''RevShare_Out'', Amount_NAD_000 = 5 \<rparr>,
               \<lparr> jf_Month_Index = 1, Flow_Type = ''Equity_In'', Amount_NAD_000 = 900 \<rparr>],
       m5_cfo = [1 \<mapsto> 100, 2 \<mapsto> - 40],
       m3_int_prin = Some ([1 \<mapsto> 20], [1 \<mapsto> 40]),
       m4_tax = Some [1 \<mapsto> 10],
       m6_cash = [1 \<mapsto> 500, 2 \<mapsto> 450],
       m6_atot = [1 \<mapsto> 2000, 2 \<mapsto> 1900],
       classification = ''debt_like'' \<rparr>"


section \<open>Python values, conversions and exceptions\<close>

text \<open>
  A cell of a pandas row holds \<open>None\<close>, an integer, a float or a string.
  Strings are lists of characters with code points below 256. A row
  (\<open>pd.Series\<close>) is a map from column names to cells.

  An exception is a value of type \<open>error\<close>; a computation that may raise
  returns \<open>error + 'a\<close>, with \<open>Inl\<close> for the exception. \<open>KeyError\<close> carries the
  fixed part of its message. \<open>ConfigurationError\<close> is the class the
  specification names for configuration faults; no code of the repository
  defines or raises it. \<open>OutsideModel\<close> is not an exception of the program:
  it marks the places where Python produces a value that this model does
  not have (a non-finite float, the text of a float), and the model stops
  there.
\<close>

datatype pyval = PNone | PInt int | PFloat real | PStr string

datatype error =
    KeyError string
  | ValueError
  | TypeError
  | ZeroDivisionError
  | OverflowError
  | ConfigurationError string
  | OutsideModel

type_synonym row = "string \<rightharpoonup> pyval"

definition ebind :: "error + 'a \<Rightarrow> ('a \<Rightarrow> error + 'b) \<Rightarrow> error + 'b" where
  "ebind r f = (case r of Inl e \<Rightarrow> Inl e | Inr x \<Rightarrow> f x)"

definition raises_ConfigurationError :: "error + 'a \<Rightarrow> bool" where
  "raises_ConfigurationError r =
     (case r of Inl (ConfigurationError _) \<Rightarrow> True | _ \<Rightarrow> False)"

subsection \<open>\<open>str.strip\<close>, \<open>str.lower\<close>\<close>

definition is_space :: "char \<Rightarrow> bool" where
  "is_space c =
     (let n = (of_char c :: nat)
      in n = 32 \<or> (9 \<le> n \<and> n \<le> 13) \<or> (28 \<le> n \<and> n \<le> 31) \<or> n = 133 \<or> n = 160)"

definition str_strip :: "string \<Rightarrow> string" where
  "str_strip s = rev (dropWhile is_space (rev (dropWhile is_space s)))"

definition lower_char :: "char \<Rightarrow> char" where
  "lower_char c =
     (let n = (of_char c :: nat)
      in if (65 \<le> n \<and> n \<le> 90) \<or> (192 \<le> n \<and> n \<le> 222 \<and> n \<noteq> 215)
         then char_of (n + 32) else c)"

definition str_lower :: "string \<Rightarrow> string" where
  "str_lower s = map lower_char s"

subsection \<open>\<open>int(...)\<close>, \<open>float(...)\<close>, \<open>str(...)\<close>\<close>

text \<open>
  Numeric literals: digits, with single underscores allowed between digits;
  an optional sign in front; surrounding whitespace ignored (the separator
  characters 28 to 31, which \<open>str.strip\<close> removes, are not whitespace here).
  A float may have a fraction and an exponent. \<open>inf\<close>, \<open>infinity\<close> and \<open>nan\<close>
  denote non-finite floats.
\<close>

definition is_literal_space :: "char \<Rightarrow> bool" where
  "is_literal_space c =
     (let n = (of_char c :: nat)
      in n = 32 \<or> (9 \<le> n \<and> n \<le> 13) \<or> n = 133 \<or> n = 160)"

definition literal_strip :: "string \<Rightarrow> string" where
  "literal_strip s = rev (dropWhile is_literal_space (rev (dropWhile is_literal_space s)))"

definition is_digit :: "char \<Rightarrow> bool" where
  "is_digit c = (48 \<le> (of_char c :: nat) \<and> (of_char c :: nat) \<le> 57)"

definition digit_val :: "char \<Rightarrow> nat" where
  "digit_val c = of_char c - 48"

fun dig_seq :: "bool \<Rightarrow> string \<Rightarrow> nat list option" where
  "dig_seq prev [] = (if prev then Some [] else None)"
| "dig_seq prev (c # cs) =
     (if is_digit c then map_option ((#) (digit_val c)) (dig_seq True cs)
      else if c = CHR ''_'' \<and> prev then dig_seq False cs
      else None)"

definition digits_value :: "nat list \<Rightarrow> nat" where
  "digits_value ds = foldl (\<lambda>a d. 10 * a + d) 0 ds"

definition split_sign :: "string \<Rightarrow> bool \<times> string" where
  "split_sign s =
     (case s of
        [] \<Rightarrow> (False, [])
      | c # cs \<Rightarrow> if c = CHR ''-'' then (True, cs)
                  else if c = CHR ''+'' then (False, cs)
                  else (False, s))"

definition int_literal :: "string \<Rightarrow> int option" where
  "int_literal s =
     (let (neg, t) = split_sign (literal_strip s)
      in map_option (\<lambda>ds. if neg then - int (digits_value ds) else int (digits_value ds))
           (dig_seq False t))"

definition is_exp_char :: "char \<Rightarrow> bool" where
  "is_exp_char c = (c = CHR ''e'' \<or> c = CHR ''E'')"

definition exponent_literal :: "string \<Rightarrow> int option" where
  "exponent_literal rest =
     (case rest of
        [] \<Rightarrow> Some 0
      | _ # ex \<Rightarrow>
          (let (neg, t) = split_sign ex
           in map_option (\<lambda>ds. if neg then - int (digits_value ds) else int (digits_value ds))
                (dig_seq False t)))"

definition mantissa_literal :: "string \<Rightarrow> real option" where
  "mantissa_literal mant =
     (let ip = takeWhile (\<lambda>c. c \<noteq> CHR ''.'') mant;
          rest = dropWhile (\<lambda>c. c \<noteq> CHR ''.'') mant
      in case rest of
           [] \<Rightarrow> map_option (\<lambda>ds. real (digits_value ds)) (dig_seq False ip)
         | _ # fp \<Rightarrow>
             if ip = [] \<and> fp = [] then None
             else (case (if ip = [] then Some [] else dig_seq False ip,
                         if fp = [] then Some [] else dig_seq False fp) of
                     (Some ids, Some fds) \<Rightarrow>
                       Some (real (digits_value (ids @ fds)) / 10 ^ length fds)
                   | _ \<Rightarrow> None))"

text \<open>
  A number too large for a double: from \<open>2^1024 - 2^970\<close> on, the nearest double
  is \<open>inf\<close>. A literal that large is read as \<open>inf\<close>, which the model does not
  have; \<open>float\<close> of an integer that large raises \<open>OverflowError\<close>.
\<close>

definition float_overflow :: "real \<Rightarrow> bool" where
  "float_overflow x = (2 ^ 1024 - 2 ^ 970 \<le> \<bar>x\<bar>)"

definition float_literal :: "string \<Rightarrow> error + real" where
  "float_literal s =
     (let (neg, t) = split_sign (literal_strip s)
      in if str_lower t \<in> set [''inf'', ''infinity'', ''nan''] then Inl OutsideModel
         else (case (mantissa_literal (takeWhile (\<lambda>c. \<not> is_exp_char c) t),
                     exponent_literal (dropWhile (\<lambda>c. \<not> is_exp_char c) t)) of
                 (Some x, Some e) \<Rightarrow>
                   if float_overflow (x * 10 powi e) then Inl OutsideModel
                   else Inr ((if neg then - x else x) * 10 powi e)
               | _ \<Rightarrow> Inl ValueError))"

definition trunc :: "real \<Rightarrow> int" where
  "trunc x = (if 0 \<le> x then \<lfloor>x\<rfloor> else \<lceil>x\<rceil>)"

fun py_int :: "pyval \<Rightarrow> error + int" where
  "py_int PNone = Inl TypeError"
| "py_int (PInt n) = Inr n"
| "py_int (PFloat x) = Inr (trunc x)"
| "py_int (PStr s) = (case int_literal s of None \<Rightarrow> Inl ValueError | Some n \<Rightarrow> Inr n)"

fun py_float :: "pyval \<Rightarrow> error + real" where
  "py_float PNone = Inl TypeError"
| "py_float (PInt n) =
     (if float_overflow (real_of_int n) then Inl OverflowError else Inr (real_of_int n))"
| "py_float (PFloat x) = Inr x"
| "py_float (PStr s) = float_literal s"

text \<open>A conversion that raises: \<open>float(v)\<close> ends in \<open>ValueError\<close> or \<open>TypeError\<close>.\<close>

definition float_raises :: "pyval \<Rightarrow> bool" where
  "float_raises v = (py_float v = Inl ValueError \<or> py_float v = Inl TypeError)"

fun nat_str :: "nat \<Rightarrow> string" where
  "nat_str n =
     (if n < 10 then [char_of (48 + n)]
      else nat_str (n div 10) @ [char_of (48 + n mod 10)])"

definition int_str :: "int \<Rightarrow> string" where
  "int_str i = (if i < 0 then CHR ''-'' # nat_str (nat (- i)) else nat_str (nat i))"

fun py_str :: "pyval \<Rightarrow> error + string" where
  "py_str PNone = Inr ''None''"
| "py_str (PInt n) = Inr (int_str n)"
| "py_str (PFloat x) = Inl OutsideModel"
| "py_str (PStr s) = Inr s"

text \<open>Truth value of a cell, and \<open>x or 0\<close>.\<close>

fun truthy :: "pyval \<Rightarrow> bool" where
  "truthy PNone = False"
| "truthy (PInt n) = (n \<noteq> 0)"
| "truthy (PFloat x) = (x \<noteq> 0)"
| "truthy (PStr s) = (s \<noteq> [])"

definition or_zero :: "pyval \<Rightarrow> pyval" where
  "or_zero v = (if truthy v then v else PInt 0)"

text \<open>\<open>row[name]\<close> raises \<open>KeyError\<close> on a missing label; \<open>row.get(name, default)\<close> does not.\<close>

definition getitem :: "row \<Rightarrow> string \<Rightarrow> error + pyval" where
  "getitem r name = (case r name of None \<Rightarrow> Inl (KeyError name) | Some v \<Rightarrow> Inr v)"

definition get_default :: "row \<Rightarrow> string \<Rightarrow> pyval \<Rightarrow> pyval" where
  "get_default r name dflt = (case r name of None \<Rightarrow> dflt | Some v \<Rightarrow> v)"


section \<open>The M3 financing engine\<close>

text \<open>
  \<open>terra_nova/modules/m3_financing/engine.py\<close>, version 3.1.0. The calendar
  is its \<open>Month_Index\<close> column, a list of integers.
\<close>

subsection \<open>\<open>_annuity_payment\<close>\<close>

text \<open>
  \<open>(1.0 + rate_m) ** (-periods)\<close> raises \<open>ZeroDivisionError\<close> when the base is
  zero, and so does the division when the denominator is zero. The threshold
  \<open>1e-12\<close> is the double nearest to \<open>10^-12\<close>, a little below it.
\<close>

definition double_1e_12 :: real where
  "double_1e_12 = 4951760157141521 / 2 ^ 92"

definition annuity_payment :: "real \<Rightarrow> real \<Rightarrow> int \<Rightarrow> error + real" where
  "annuity_payment pv rate_m periods =
     (if periods \<le> 0 then Inr pv
      else if \<bar>rate_m\<bar> < double_1e_12 then Inr (pv / real_of_int periods)
      else if 1 + rate_m = 0 then Inl ZeroDivisionError
      else if 1 - (1 + rate_m) powi (- periods) = 0 then Inl ZeroDivisionError
      else Inr (pv * rate_m / (1 - (1 + rate_m) powi (- periods))))"

subsection \<open>\<open>create_loan_schedule\<close>: reading the row\<close>

definition calendar_horizon :: "int list \<Rightarrow> error + int" where
  "calendar_horizon cal = (case cal of [] \<Rightarrow> Inl ValueError | m # ms \<Rightarrow> Inr (fold max ms m))"

text \<open>
  \<open>_ival\<close>: \<open>int(v)\<close>, and when that raises, \<open>int(float(v))\<close>, or the default for
  \<open>None\<close> and the empty string. An exception of \<open>float(v)\<close> in the handler is
  not caught.
\<close>

definition ival :: "row \<Rightarrow> string \<Rightarrow> int \<Rightarrow> error + int" where
  "ival loan_params name dflt =
     (let v = get_default loan_params name (PInt dflt)
      in case py_int v of
           Inr n \<Rightarrow> Inr n
         | Inl _ \<Rightarrow>
             if v \<noteq> PNone \<and> v \<noteq> PStr []
             then ebind (py_float v) (\<lambda>x. Inr (trunc x))
             else Inr dflt)"

text \<open>\<open>_fval\<close>: \<open>float(v)\<close>, and the default when that raises.\<close>

definition fval :: "row \<Rightarrow> string \<Rightarrow> real \<Rightarrow> error + real" where
  "fval loan_params name dflt =
     (case py_float (get_default loan_params name (PFloat dflt)) of
        Inr x \<Rightarrow> Inr x
      | Inl OutsideModel \<Rightarrow> Inl OutsideModel
      | Inl _ \<Rightarrow> Inr dflt)"

record loan_inputs =
  horizon :: int
  principal :: real
  rate_pct :: real
  tenor :: int
  draw_start :: int
  draw_end :: int
  grace_prin_m :: int
  amort_type :: string

definition read_loan_inputs :: "row \<Rightarrow> int list \<Rightarrow> error + loan_inputs" where
  "read_loan_inputs loan_params calendar =
     ebind (calendar_horizon calendar) (\<lambda>hz.
     ebind (fval loan_params ''Principal'' 0) (\<lambda>pr.
     ebind (fval loan_params ''Rate_Pct'' 0) (\<lambda>rp.
     ebind (ival loan_params ''Tenor_Months'' hz) (\<lambda>tn.
     ebind (ival loan_params ''Draw_Start_M'' 1) (\<lambda>ds.
     ebind (ival loan_params ''Draw_End_M'' (max ds 1)) (\<lambda>draw_end_raw.
     ebind (ival loan_params ''Grace_Principal_M'' 0) (\<lambda>gr.
     ebind (py_str (get_default loan_params ''Amort_Type'' (PStr ''annuity''))) (\<lambda>s.
       Inr \<lparr> horizon = hz,
             principal = pr,
             rate_pct = rp,
             tenor = max tn 0,
             draw_start = max ds 1,
             draw_end = max 0 (min draw_end_raw (min (max tn 0) hz)),
             grace_prin_m = max gr 0,
             amort_type = str_lower (str_strip s) \<rparr>))))))))"

definition r_m :: "loan_inputs \<Rightarrow> real" where
  "r_m p = rate_pct p / 100 / 12"

definition draw_months :: "loan_inputs \<Rightarrow> int" where
  "draw_months p =
     (if draw_end p \<ge> draw_start p then max 0 (draw_end p - draw_start p + 1) else 0)"

definition monthly_draw :: "loan_inputs \<Rightarrow> real" where
  "monthly_draw p =
     (if draw_months p > 0 then principal p / real_of_int (draw_months p) else 0)"

definition amort_start :: "loan_inputs \<Rightarrow> int" where
  "amort_start p = min (draw_end p + grace_prin_m p + 1) (tenor p)"

definition amort_nper :: "loan_inputs \<Rightarrow> int" where
  "amort_nper p = max (tenor p - amort_start p + 1) 0"

subsection \<open>\<open>create_loan_schedule\<close>: the month loop\<close>

record loan_row =
  Month_Index :: int
  Opening_Balance :: real
  Drawdown :: real
  Interest_Accrued :: real
  Principal_Repayment :: real
  Closing_Balance :: real

text \<open>
  What the loop carries from one month to the next: the closing balance it
  wrote for the month before, and the three amounts it sets once.
\<close>

record loop_vars =
  prev_closing :: real
  annuity_pmt :: "real option"
  straight_principal :: "real option"
  pv_at_amort_start :: "real option"

definition write_row ::
  "loop_vars \<Rightarrow> int \<Rightarrow> real \<Rightarrow> real \<Rightarrow> real \<Rightarrow> real \<Rightarrow> error + loan_row \<times> loop_vars" where
  "write_row st m opening draw interest repay =
     Inr (\<lparr> Month_Index = m,
            Opening_Balance = opening,
            Drawdown = draw,
            Interest_Accrued = interest,
            Principal_Repayment = repay,
            Closing_Balance = opening + draw - repay \<rparr>,
          st\<lparr> prev_closing := opening + draw - repay \<rparr>)"

text \<open>
  The month's opening balance, draw and interest; the annuity branch and the
  branch of an unknown policy are the same code.
\<close>

definition opening_bal :: "loop_vars \<Rightarrow> int \<Rightarrow> real" where
  "opening_bal st m = (if m - 1 > 0 then prev_closing st else 0)"

definition draw :: "loan_inputs \<Rightarrow> int \<Rightarrow> real" where
  "draw p m =
     (if draw_months p > 0 \<and> draw_start p \<le> m \<and> m \<le> draw_end p then monthly_draw p else 0)"

definition interest :: "loan_inputs \<Rightarrow> loop_vars \<Rightarrow> int \<Rightarrow> real" where
  "interest p st m = (if 1 \<le> m \<and> m \<le> tenor p then opening_bal st m * r_m p else 0)"

definition annuity_branch ::
  "loan_inputs \<Rightarrow> loop_vars \<Rightarrow> int \<Rightarrow> real \<Rightarrow> error + loan_row \<times> loop_vars" where
  "annuity_branch p st m pv =
     ebind (case annuity_pmt st of
              None \<Rightarrow> annuity_payment pv (r_m p) (amort_nper p)
            | Some a \<Rightarrow> Inr a)
       (\<lambda>pmt. write_row (st\<lparr> annuity_pmt := Some pmt \<rparr>) m
                 (opening_bal st m) (draw p m) (interest p st m)
                 (if m = tenor p then max 0 (opening_bal st m + draw p m)
                  else max 0 (pmt - interest p st m)))"

definition month_step :: "loan_inputs \<Rightarrow> loop_vars \<Rightarrow> int \<Rightarrow> error + loan_row \<times> loop_vars" where
  "month_step p st m =
     (if amort_nper p > 0 \<and> amort_start p \<le> m \<and> m \<le> tenor p then
        (let pv = (case pv_at_amort_start st of None \<Rightarrow> opening_bal st m + 0 | Some v \<Rightarrow> v);
             st1 = st\<lparr> pv_at_amort_start := Some pv \<rparr>
         in if amort_type p = ''annuity'' then
              annuity_branch p st1 m pv
            else if amort_type p = ''straight'' then
              (let sp = (case straight_principal st1 of
                           None \<Rightarrow> (if amort_nper p > 0
                                     then pv / real_of_int (amort_nper p) else 0)
                         | Some s \<Rightarrow> s)
               in write_row (st1\<lparr> straight_principal := Some sp \<rparr>) m
                    (opening_bal st m) (draw p m) (interest p st m)
                    (if m = tenor p then max 0 (opening_bal st m + draw p m) else sp))
            else if amort_type p = ''bullet'' then
              write_row st1 m (opening_bal st m) (draw p m) (interest p st m)
                (if m < tenor p then 0 else max 0 (opening_bal st m + draw p m))
            else
              annuity_branch p st1 m pv)
      else write_row st m (opening_bal st m) (draw p m) (interest p st m) 0)"

fun loan_loop :: "loan_inputs \<Rightarrow> loop_vars \<Rightarrow> int list \<Rightarrow> error + loan_row list" where
  "loan_loop p st [] = Inr []"
| "loan_loop p st (m # ms) =
     (case month_step p st m of
        Inl e \<Rightarrow> Inl e
      | Inr (r, st') \<Rightarrow>
          (case loan_loop p st' ms of Inl e \<Rightarrow> Inl e | Inr rs \<Rightarrow> Inr (r # rs)))"

definition loop_start :: loop_vars where
  "loop_start =
     \<lparr> prev_closing = 0, annuity_pmt = None, straight_principal = None,
       pv_at_amort_start = None \<rparr>"

definition loan_rows :: "loan_inputs \<Rightarrow> error + loan_row list" where
  "loan_rows p = loan_loop p loop_start [1..horizon p]"

definition create_loan_schedule :: "row \<Rightarrow> int list \<Rightarrow> error + loan_row list" where
  "create_loan_schedule loan_params calendar =
     ebind (read_loan_inputs loan_params calendar) loan_rows"

subsection \<open>\<open>_create_revolver_schedule\<close>, \<open>_create_insurance_schedule\<close>\<close>

record revolver_row =
  rv_Month_Index :: int
  rv_Line_ID :: int
  rv_Currency :: string
  rv_Opening_Balance :: real
  rv_Drawdown :: real
  rv_Repayment :: real
  rv_Interest_Accrued :: real
  rv_Closing_Balance :: real

definition create_revolver_schedule :: "row \<Rightarrow> int list \<Rightarrow> error + revolver_row list" where
  "create_revolver_schedule r calendar =
     ebind (ebind (getitem r ''Principal'') py_float) (\<lambda>pr.
     ebind (ebind (getitem r ''Rate_Pct'') py_float) (\<lambda>rp.
     ebind (ebind (getitem r ''Tenor_Months'') py_int) (\<lambda>tn.
     ebind (ebind (getitem r ''Draw_Start_M'') py_int) (\<lambda>ds.
     ebind (ebind (getitem r ''Line_ID'') py_int) (\<lambda>line_id.
     ebind (ebind (getitem r ''Currency'') py_str) (\<lambda>ccy.
       Inr (map (\<lambda>m. \<lparr> rv_Month_Index = m,
                        rv_Line_ID = line_id,
                        rv_Currency = ccy,
                        rv_Opening_Balance = 0,
                        rv_Drawdown = 0,
                        rv_Repayment = 0,
                        rv_Interest_Accrued =
                          (if m \<ge> ds \<and> m \<le> tn then 0.5 * pr * ((rp / 100) / 12) else 0),
                        rv_Closing_Balance = 0 \<rparr>)
                calendar)))))))"

record insurance_row =
  ins_Month_Index :: int
  ins_Line_ID :: int
  ins_Currency :: string
  Premium_Cash_Outflow :: real
  Expense_Recognized :: real
  Prepaid_BOP :: real
  Prepaid_EOP :: real

definition create_insurance_schedule :: "row \<Rightarrow> int list \<Rightarrow> error + insurance_row list" where
  "create_insurance_schedule r calendar =
     ebind (calendar_horizon calendar) (\<lambda>hz.
     ebind (ebind (getitem r ''Line_ID'') py_int) (\<lambda>line_id.
     ebind (ebind (getitem r ''Currency'') py_str) (\<lambda>currency.
       Inr (map (\<lambda>m. \<lparr> ins_Month_Index = m,
                        ins_Line_ID = line_id,
                        ins_Currency = currency,
                        Premium_Cash_Outflow = 0,
                        Expense_Recognized = 0,
                        Prepaid_BOP = 0,
                        Prepaid_EOP = 0 \<rparr>)
                [1..hz]))))"

subsection \<open>\<open>create_financing_schedules\<close>\<close>

text \<open>A table: its column labels and its rows, each row a map from label to cell.\<close>

record dataframe =
  columns :: "string list"
  rows :: "row list"

definition req_cols :: "string list" where
  "req_cols =
     [''Case_Name'', ''Line_ID'', ''Instrument'', ''Currency'', ''Principal'', ''Rate_Pct'',
      ''Tenor_Months'', ''Draw_Start_M'', ''Draw_End_M'', ''Grace_Int_M'',
      ''Grace_Principal_M'', ''Amort_Type'', ''Balloon_Pct'', ''Revolving'',
      ''Is_Insurance'', ''Premium_Rate_Pct'', ''Secured_By'', ''Active'']"

definition is_one :: "pyval option \<Rightarrow> bool" where
  "is_one c = (c = Some (PInt 1) \<or> c = Some (PFloat 1))"

record schedules =
  revolver :: "revolver_row list"
  insurance :: "insurance_row list"
  index :: "row list"

text \<open>
  The loop over the active rows. A standard loan's schedule is computed and
  dropped; an exception it raises is not.
\<close>

fun process_rows ::
  "row list \<Rightarrow> int list \<Rightarrow> error + revolver_row list \<times> insurance_row list" where
  "process_rows [] calendar = Inr ([], [])"
| "process_rows (r # rs) calendar =
     ebind (py_int (or_zero (get_default r ''Is_Insurance'' (PInt 0)))) (\<lambda>ins.
       if ins = 1 then
         (case create_insurance_schedule r calendar of
            Inl e \<Rightarrow> Inl e
          | Inr s \<Rightarrow> (case process_rows rs calendar of
                        Inl e \<Rightarrow> Inl e
                      | Inr (rv, ins_s) \<Rightarrow> Inr (rv, s @ ins_s)))
       else
         ebind (py_int (or_zero (get_default r ''Revolving'' (PInt 0)))) (\<lambda>rev.
           if rev = 1 then
             (case create_revolver_schedule r calendar of
                Inl e \<Rightarrow> Inl e
              | Inr s \<Rightarrow> (case process_rows rs calendar of
                            Inl e \<Rightarrow> Inl e
                          | Inr (rv, ins_s) \<Rightarrow> Inr (s @ rv, ins_s)))
           else
             (case create_loan_schedule r calendar of
                Inl e \<Rightarrow> Inl e
              | Inr _ \<Rightarrow> process_rows rs calendar)))"

definition create_financing_schedules ::
  "dataframe \<Rightarrow> dataframe \<Rightarrow> int list \<Rightarrow> error + schedules" where
  "create_financing_schedules finance_stack_df pfinance_case_selector_df calendar =
     (if \<exists>c \<in> set req_cols. c \<notin> set (columns finance_stack_df)
      then Inl (KeyError ''Finance_Stack missing required columns'')
      else if ''Key'' \<notin> set (columns pfinance_case_selector_df)
              \<or> ''Value'' \<notin> set (columns pfinance_case_selector_df)
      then Inl (KeyError ''PFinance_Case_Selector must contain 'Key' and 'Value' columns.'')
      else
        (case filter (\<lambda>r. r ''Key'' = Some (PStr ''PFinance_Case''))
                (rows pfinance_case_selector_df) of
           [] \<Rightarrow> Inl (KeyError ''PFinance_Case_Selector is missing the 'PFinance_Case' row.'')
         | sel0 # _ \<Rightarrow>
             ebind (case sel0 ''Value'' of None \<Rightarrow> Inl OutsideModel | Some v \<Rightarrow> py_str v)
               (\<lambda>active_case.
                  let active = filter (\<lambda>r. r ''Case_Name'' = Some (PStr active_case)
                                           \<and> is_one (r ''Active''))
                                 (rows finance_stack_df)
                  in ebind (process_rows active calendar) (\<lambda>(rv, ins_s).
                       Inr \<lparr> revolver = rv,
                             insurance = ins_s,
                             index = map (\<lambda>r. r |` set [''Case_Name'', ''Line_ID'', ''Instrument'',
                                                        ''Revolving'', ''Is_Insurance'', ''Currency''])
                                       active \<rparr>))))"


section \<open>Example inputs\<close>

text \<open>
  A loan of 1200 at 12 percent a year, drawn in month 1, tenor 3 months, on
  a calendar of 4 months; and the schedule the annuity policy gives it.
\<close>

definition example_loan :: row where
  "example_loan =
     [''Principal'' \<mapsto> PFloat 1200, ''Rate_Pct'' \<mapsto> PFloat 12, ''Tenor_Months'' \<mapsto> PInt 3,
      ''Draw_Start_M'' \<mapsto> PInt 1, ''Draw_End_M'' \<mapsto> PInt 1,
      ''Grace_Principal_M'' \<mapsto> PInt 0, ''Amort_Type'' \<mapsto> PStr ''annuity'']"

definition example_calendar :: "int list" where
  "example_calendar = [1, 2, 3, 4]"

definition example_loan_schedule :: "loan_row list" where
  "example_loan_schedule =
     [\<lparr> Month_Index = 1, Opening_Balance = 0, Drawdown = 1200, Interest_Accrued = 0,
         Principal_Repayment = 0, Closing_Balance = 1200 \<rparr>,
      \<lparr> Month_Index = 2, Opening_Balance = 1200, Drawdown = 0, Interest_Accrued = 12,
         Principal_Repayment = 40000 / 67, Closing_Balance = 40400 / 67 \<rparr>,
      \<lparr> Month_Index = 3, Opening_Balance = 40400 / 67, Drawdown = 0,
         Interest_Accrued = 404 / 67, Principal_Repayment = 40400 / 67, Closing_Balance = 0 \<rparr>,
      \<lparr> Month_Index = 4, Opening_Balance = 0, Drawdown = 0, Interest_Accrued = 0,
         Principal_Repayment = 0, Closing_Balance = 0 \<rparr>]"

text \<open>
  A revolving line of 2000 at 12 percent a year, active from month 7 to
  month 36, on a calendar of 60 months.
\<close>

definition example_revolver :: row where
  "example_revolver =
     [''Principal'' \<mapsto> PFloat 2000, ''Rate_Pct'' \<mapsto> PFloat 12, ''Tenor_Months'' \<mapsto> PInt 36,
      ''Draw_Start_M'' \<mapsto> PInt 7, ''Line_ID'' \<mapsto> PInt 4, ''Currency'' \<mapsto> PStr ''NAD'']"

text \<open>
  A catalog with the required columns and one active standard loan, and two
  case selectors: one names the case, the other has no \<open>PFinance_Case\<close> row.
\<close>

definition example_stack :: dataframe where
  "example_stack =
     \<lparr> columns = req_cols,
       rows = [example_loan(''Case_Name'' \<mapsto> PStr ''Base'', ''Line_ID'' \<mapsto> PInt 1,
                 ''Instrument'' \<mapsto> PStr ''Senior'', ''Currency'' \<mapsto> PStr ''NAD'',
                 ''Revolving'' \<mapsto> PInt 0, ''Is_Insurance'' \<mapsto> PInt 0, ''Active'' \<mapsto> PInt 1)] \<rparr>"

definition example_selector :: dataframe where
  "example_selector =
     \<lparr> columns = [''Key'', ''Value''],
       rows = [[''Key'' \<mapsto> PStr ''PFinance_Case'', ''Value'' \<mapsto> PStr ''Base'']] \<rparr>"

definition example_selector_no_case :: dataframe where
  "example_selector_no_case =
     \<lparr> columns = [''Key'', ''Value''],
       rows = [[''Key'' \<mapsto> PStr ''Scenario'', ''Value'' \<mapsto> PStr ''Base'']] \<rparr>"

text \<open>The example loan with every numeric field malformed.\<close>

definition example_malformed :: row where
  "example_malformed =
     [''Principal'' \<mapsto> PStr ''n/a'', ''Rate_Pct'' \<mapsto> PNone, ''Tenor_Months'' \<mapsto> PStr '''',
      ''Draw_Start_M'' \<mapsto> PNone, ''Draw_End_M'' \<mapsto> PStr '''',
      ''Grace_Principal_M'' \<mapsto> PNone, ''Amort_Type'' \<mapsto> PStr ''annuity'']"

text \<open>The example loan as \<open>create_loan_schedule\<close> reads it.\<close>

definition example_loan_inputs :: loan_inputs where
  "example_loan_inputs =
     \<lparr> horizon = 4, principal = 1200, rate_pct = 12, tenor = 3, draw_start = 1,
       draw_end = 1, grace_prin_m = 0, amort_type = ''annuity'' \<rparr>"





section \<open>Invariants of the month loop\<close>

text \<open>
  What \<open>create_loan_schedule\<close> has established about its inputs before the
  loop starts.
\<close>

definition sanitized :: "loan_inputs \<Rightarrow> bool" where
  "sanitized p \<longleftrightarrow>
     0 \<le> tenor p \<and> 1 \<le> draw_start p \<and> 0 \<le> draw_end p \<and> draw_end p \<le> tenor p
     \<and> 0 \<le> grace_prin_m p"



section \<open>Properties of the waterfall\<close>

lemma length_reindex_fillna [simp]: "length (reindex_fillna s ms) = length ms"
  by (simp add: reindex_fillna_def)

lemma length_agg_col [simp]: "length (agg_col ts inp) = length (months inp)"
  by (simp add: agg_col_def)

lemma length_CFO [simp]: "length (CFO inp) = length (months inp)"
  by (simp add: CFO_def)

lemma length_senior_service [simp]: "length (senior_service inp) = length (months inp)"
  by (simp add: senior_service_def split: option.splits)

lemma length_tax_paid [simp]: "length (tax_paid inp) = length (months inp)"
  by (simp add: tax_paid_def split: option.splits)

lemma length_available [simp]: "length (available inp) = length (months inp)"
  by (simp add: available_def)

lemma length_sched_out [simp]: "length (sched_out inp) = length (months inp)"
  by (simp add: sched_out_def)

lemma length_actual_out [simp]: "length (actual_out inp) = length (months inp)"
  by (simp add: actual_out_def)

lemma length_unpaid [simp]: "length (unpaid inp) = length (months inp)"
  by (simp add: unpaid_def)

lemma length_cumsum_from [simp]: "length (cumsum_from a xs) = length xs"
  by (induction xs arbitrary: a) simp_all

lemma length_cumsum [simp]: "length (cumsum xs) = length xs"
  by (simp add: cumsum_def)

lemma nth_cumsum_from:
  "i < length xs \<Longrightarrow> cumsum_from a xs ! i = a + (\<Sum>k\<le>i. xs ! k)"
proof (induction xs arbitrary: a i)
  case Nil
  then show ?case by simp
next
  case (Cons x xs)
  show ?case
  proof (cases i)
    case 0
    then show ?thesis by simp
  next
    case (Suc j)
    with Cons.prems have j: "j < length xs" by simp
    have "(\<Sum>k\<le>Suc j. (x # xs) ! k) = x + (\<Sum>k\<le>j. xs ! k)"
      by (simp add: sum.atMost_Suc_shift del: sum.atMost_Suc)
    with Cons.IH [OF j, of "a + x"] Suc show ?thesis by simp
  qed
qed

lemma nth_cumsum: "i < length xs \<Longrightarrow> cumsum xs ! i = (\<Sum>k\<le>i. xs ! k)"
  by (simp add: cumsum_def nth_cumsum_from)

lemma nth_available:
  "i < length (months inp) \<Longrightarrow>
   available inp ! i = max 0 (CFO inp ! i - senior_service inp ! i - tax_paid inp ! i)"
  by (simp add: available_def)

lemma nth_actual_out:
  "i < length (months inp) \<Longrightarrow> actual_out inp ! i = min (sched_out inp ! i) (available inp ! i)"
  by (simp add: actual_out_def)

lemma nth_unpaid:
  "i < length (months inp) \<Longrightarrow> unpaid inp ! i = sched_out inp ! i - actual_out inp ! i"
  by (simp add: unpaid_def)

lemma unpaid_nonneg: "i < length (months inp) \<Longrightarrow> 0 \<le> unpaid inp ! i"
  by (simp add: nth_unpaid nth_actual_out)


lemma example_month_values:
  "months example_month = [1]"
  "CFO example_month = [100]"
  "senior_service example_month = [60]"
  "tax_paid example_month = [10]"
  "sched_out example_month = [50]"
  by (simp_all add: example_month_def CFO_def senior_service_def tax_paid_def sched_out_def
      agg_col_def reindex_fillna_def JUNIOR_FLOW_OUT_TYPES_def)

text \<open>
  C3, as amended. The runner has no cash buffer: for every period,
  \<open>available\<close> is \<open>max(0, CFO - senior_service - tax_paid)\<close>, which is the
  specification's rule with the buffer fixed at 0, and \<open>actual_out\<close> is
  \<open>min(sched_out, available)\<close>; so \<open>available\<close> is never negative and
  \<open>actual_out\<close> exceeds neither \<open>sched_out\<close> nor \<open>available\<close>. For CFO 100,
  senior service 60, tax paid 10 and scheduled outflow 50 the month has
  available 30, actual outflow 30 and shortfall 20.
\<close>

theorem waterfall_available_actual_out:
  "(\<forall>i < length (months inp).
      available inp ! i = max 0 (CFO inp ! i - senior_service inp ! i - tax_paid inp ! i)
    \<and> available inp ! i = spec_available (CFO inp ! i) (senior_service inp ! i) (tax_paid inp ! i) 0
    \<and> actual_out inp ! i = min (sched_out inp ! i) (available inp ! i)
    \<and> 0 \<le> available inp ! i
    \<and> actual_out inp ! i \<le> sched_out inp ! i
    \<and> actual_out inp ! i \<le> available inp ! i)
   \<and> available example_month = [30] \<and> actual_out example_month = [30]
   \<and> unpaid example_month = [20]"
proof -
  have ex: "available example_month = [30] \<and> actual_out example_month = [30]
      \<and> unpaid example_month = [20]"
    by (simp add: available_def actual_out_def unpaid_def example_month_values)
  have "\<And>i. i < length (months inp) \<Longrightarrow> 0 \<le> available inp ! i"
    by (simp add: nth_available)
  then show ?thesis
    using ex by (simp add: nth_available nth_actual_out spec_available_def)
qed

theorem waterfall_available_actual_out_witness:
  "available example_month ! 0 = max 0 (100 - 60 - 10)
   \<and> actual_out example_month ! 0 = min 50 (available example_month ! 0)
   \<and> 0 \<le> available example_month ! 0"
proof -
  have h: "0 < length (months example_month)"
    by (simp add: example_month_values)
  from waterfall_available_actual_out [of example_month] h
  have "available example_month ! 0
          = max 0 (CFO example_month ! 0 - senior_service example_month ! 0
                     - tax_paid example_month ! 0)
        \<and> actual_out example_month ! 0
          = min (sched_out example_month ! 0) (available example_month ! 0)
        \<and> 0 \<le> available example_month ! 0"
    by blast
  then show ?thesis by (simp add: example_month_values)
qed

text \<open>
  C3 as stated fails: the specification's rule takes a buffer off the
  available cash, and the runner takes none. With a buffer of 5 the rule
  gives 25 for the example month, and the runner's \<open>available\<close> is 30.
\<close>

theorem waterfall_buffer_counterexample:
  "available example_month ! 0
     \<noteq> spec_available (CFO example_month ! 0) (senior_service example_month ! 0)
          (tax_paid example_month ! 0) 5"
  by (simp add: available_def spec_available_def example_month_values)

text \<open>
  C4. The payable column of the rebuilt balance sheet is the running sum of
  the shortfalls \<open>sched_out - actual_out\<close>, and it never decreases from one
  period to the next (whatever the sign of the scheduled amounts).
\<close>

theorem payable_running_sum_nondecreasing:
  "(\<forall>i < length (months inp).
      Dividends_Payable_or_RevShare_Payable_NAD_000 (bs inp) ! i
        = (\<Sum>k\<le>i. sched_out inp ! k - actual_out inp ! k))
   \<and> (\<forall>i. Suc i < length (months inp) \<longrightarrow>
         Dividends_Payable_or_RevShare_Payable_NAD_000 (bs inp) ! i
           \<le> Dividends_Payable_or_RevShare_Payable_NAD_000 (bs inp) ! Suc i)"
proof (intro conjI allI impI)
  fix i assume i: "i < length (months inp)"
  have "(\<Sum>k\<le>i. unpaid inp ! k) = (\<Sum>k\<le>i. sched_out inp ! k - actual_out inp ! k)"
    using i by (intro sum.cong) (simp_all add: nth_unpaid)
  then show "Dividends_Payable_or_RevShare_Payable_NAD_000 (bs inp) ! i
        = (\<Sum>k\<le>i. sched_out inp ! k - actual_out inp ! k)"
    using i by (simp add: bs_def payable_eop_def nth_cumsum)
next
  fix i assume i: "Suc i < length (months inp)"
  then have "0 \<le> unpaid inp ! Suc i"
    by (rule unpaid_nonneg)
  then show "Dividends_Payable_or_RevShare_Payable_NAD_000 (bs inp) ! i
           \<le> Dividends_Payable_or_RevShare_Payable_NAD_000 (bs inp) ! Suc i"
    using i by (simp add: bs_def payable_eop_def nth_cumsum)
qed

theorem payable_running_sum_nondecreasing_witness:
  "Suc 0 < length (months example_two_months)
   \<and> Dividends_Payable_or_RevShare_Payable_NAD_000 (bs example_two_months) = [20, 25]
   \<and> Dividends_Payable_or_RevShare_Payable_NAD_000 (bs example_two_months) ! 0
       \<le> Dividends_Payable_or_RevShare_Payable_NAD_000 (bs example_two_months) ! Suc 0"
proof -
  have h: "Suc 0 < length (months example_two_months)"
    by (simp add: example_two_months_def)
  have v: "Dividends_Payable_or_RevShare_Payable_NAD_000 (bs example_two_months) = [20, 25]"
    by code_simp
  from payable_running_sum_nondecreasing [of example_two_months] h
  have "Dividends_Payable_or_RevShare_Payable_NAD_000 (bs example_two_months) ! 0
       \<le> Dividends_Payable_or_RevShare_Payable_NAD_000 (bs example_two_months) ! Suc 0"
    by blast
  with h v show ?thesis by blast
qed

text \<open>
  C10. The rebuilt balance sheet's \<open>Liabilities_And_Equity_Total_NAD_000\<close>
  is a copy of its \<open>Assets_Total_NAD_000\<close>, so the two agree in every period
  within 1e-6, for every input: the liability, equity and payable columns
  do not enter the total.
\<close>

theorem balance_sheet_identity_by_construction:
  "Liabilities_And_Equity_Total_NAD_000 (bs inp) = Assets_Total_NAD_000 (bs inp)
   \<and> (\<forall>i < length (months inp).
        \<bar>Assets_Total_NAD_000 (bs inp) ! i - Liabilities_And_Equity_Total_NAD_000 (bs inp) ! i\<bar>
          \<le> 1 / 10 ^ 6)"
  by (simp add: bs_def le_total_def)

theorem balance_sheet_identity_by_construction_witness:
  "Suc 0 < length (months example_two_months)
   \<and> \<bar>Assets_Total_NAD_000 (bs example_two_months) ! 1
        - Liabilities_And_Equity_Total_NAD_000 (bs example_two_months) ! 1\<bar> \<le> 1 / 10 ^ 6
   \<and> Assets_Total_NAD_000 (bs example_two_months) ! 1
        \<noteq> Junior_Note_Liability_NAD_000 (bs example_two_months) ! 1
          + Contributed_Equity_Junior_NAD_000 (bs example_two_months) ! 1
          + Dividends_Payable_or_RevShare_Payable_NAD_000 (bs example_two_months) ! 1"
proof -
  have h: "Suc 0 < length (months example_two_months)"
    by (simp add: example_two_months_def)
  have v: "Assets_Total_NAD_000 (bs example_two_months) = [2870, 2770]
      \<and> Junior_Note_Liability_NAD_000 (bs example_two_months) = [900, 900]
      \<and> Contributed_Equity_Junior_NAD_000 (bs example_two_months) = [850, 845]
      \<and> Dividends_Payable_or_RevShare_Payable_NAD_000 (bs example_two_months) = [20, 25]"
    by code_simp
  from balance_sheet_identity_by_construction [of example_two_months] h
  have "\<bar>Assets_Total_NAD_000 (bs example_two_months) ! 1
        - Liabilities_And_Equity_Total_NAD_000 (bs example_two_months) ! 1\<bar> \<le> 1 / 10 ^ 6"
    by simp
  with h v show ?thesis by simp
qed


section \<open>Properties of the loan schedule\<close>

subsection \<open>The loop, month by month\<close>

lemma ebind_simps [simp]: "ebind (Inl e) f = Inl e" "ebind (Inr x) f = f x"
  by (simp_all add: ebind_def)

lemma ebind_eq_Inr: "ebind r f = Inr y \<longleftrightarrow> (\<exists>x. r = Inr x \<and> f x = Inr y)"
  by (cases r) simp_all

lemma write_row_eq:
  "write_row st m ob dr ir rp = Inr (r, st') \<longleftrightarrow>
     r = \<lparr> Month_Index = m, Opening_Balance = ob, Drawdown = dr,
           Interest_Accrued = ir, Principal_Repayment = rp,
           Closing_Balance = ob + dr - rp \<rparr>
     \<and> st' = st\<lparr> prev_closing := ob + dr - rp \<rparr>"
  by (auto simp: write_row_def)

lemma opening_upd [simp]:
  "opening_bal (st\<lparr> pv_at_amort_start := a \<rparr>) m = opening_bal st m"
  "opening_bal (st\<lparr> annuity_pmt := b \<rparr>) m = opening_bal st m"
  "opening_bal (st\<lparr> straight_principal := c \<rparr>) m = opening_bal st m"
  by (simp_all add: opening_bal_def)

lemma interest_upd [simp]:
  "interest p (st\<lparr> pv_at_amort_start := a \<rparr>) m = interest p st m"
  "interest p (st\<lparr> annuity_pmt := b \<rparr>) m = interest p st m"
  "interest p (st\<lparr> straight_principal := c \<rparr>) m = interest p st m"
  by (simp_all add: interest_def)

lemma month_step_row:
  assumes "month_step p st m = Inr (r, st')"
  shows "Month_Index r = m"
    and "Opening_Balance r = opening_bal st m"
    and "Drawdown r = draw p m"
    and "Interest_Accrued r = interest p st m"
    and "Closing_Balance r = Opening_Balance r + Drawdown r - Principal_Repayment r"
    and "prev_closing st' = Closing_Balance r"
  using assms
  by (auto simp: month_step_def annuity_branch_def Let_def ebind_eq_Inr write_row_eq
      split: if_splits)

lemma loan_loop_steps:
  "loan_loop p st ms = Inr rs \<Longrightarrow>
   length rs = length ms \<and>
   (\<forall>i < length ms. \<exists>sti sti'. month_step p sti (ms ! i) = Inr (rs ! i, sti')
       \<and> (i = 0 \<longrightarrow> sti = st)
       \<and> (0 < i \<longrightarrow> prev_closing sti = Closing_Balance (rs ! (i - 1))))"
proof (induction ms arbitrary: st rs)
  case Nil
  then show ?case by simp
next
  case (Cons m ms)
  from Cons.prems obtain r st' rs' where
    step: "month_step p st m = Inr (r, st')" and rest: "loan_loop p st' ms = Inr rs'"
    and rs: "rs = r # rs'"
    by (auto split: sum.splits)
  from Cons.IH [OF rest] have len: "length rs' = length ms"
    and ih: "\<And>i. i < length ms \<Longrightarrow> \<exists>sti sti'. month_step p sti (ms ! i) = Inr (rs' ! i, sti')
       \<and> (i = 0 \<longrightarrow> sti = st') \<and> (0 < i \<longrightarrow> prev_closing sti = Closing_Balance (rs' ! (i - 1)))"
    by blast+
  have "\<exists>sti sti'. month_step p sti ((m # ms) ! i) = Inr (rs ! i, sti')
       \<and> (i = 0 \<longrightarrow> sti = st)
       \<and> (0 < i \<longrightarrow> prev_closing sti = Closing_Balance (rs ! (i - 1)))"
    if i: "i < length (m # ms)" for i
  proof (cases i)
    case 0
    with step rs show ?thesis by auto
  next
    case (Suc j)
    with i have j: "j < length ms" by simp
    from ih [OF j] obtain sti sti' where
      s: "month_step p sti (ms ! j) = Inr (rs' ! j, sti')"
      and s0: "j = 0 \<longrightarrow> sti = st'"
      and s1: "0 < j \<longrightarrow> prev_closing sti = Closing_Balance (rs' ! (j - 1))"
      by blast
    have "prev_closing sti = Closing_Balance (rs ! (i - 1))"
    proof (cases j)
      case 0
      with s0 month_step_row(6) [OF step] rs Suc show ?thesis by simp
    next
      case (Suc k)
      with s1 rs \<open>i = Suc j\<close> show ?thesis by simp
    qed
    with s rs Suc show ?thesis by auto
  qed
  with len rs show ?case by simp
qed

lemma create_loan_schedule_Inr:
  "create_loan_schedule row cal = Inr rs \<longleftrightarrow>
     (\<exists>p. read_loan_inputs row cal = Inr p \<and> loan_loop p loop_start [1..horizon p] = Inr rs)"
  by (simp add: create_loan_schedule_def ebind_eq_Inr loan_rows_def)

text \<open>
  C1. Every row of a schedule that \<open>create_loan_schedule\<close> returns satisfies the
  rollforward identity: closing = opening + draw - repayment, within 1e-6
  (exactly, in fact).
\<close>

theorem rollforward_identity:
  "create_loan_schedule loan_params calendar = Inr rs \<Longrightarrow>
   \<forall>r \<in> set rs.
     \<bar>Opening_Balance r + Drawdown r - Principal_Repayment r - Closing_Balance r\<bar> \<le> 1 / 10 ^ 6"
proof
  fix r assume a: "create_loan_schedule loan_params calendar = Inr rs" and r: "r \<in> set rs"
  from a obtain p where l: "loan_loop p loop_start [1..horizon p] = Inr rs"
    by (auto simp: create_loan_schedule_Inr)
  from r obtain i where i: "i < length rs" "rs ! i = r"
    by (auto simp: in_set_conv_nth)
  with loan_loop_steps [OF l] obtain sti sti' where
    "month_step p sti ([1..horizon p] ! i) = Inr (r, sti')"
    by force
  from month_step_row(5) [OF this]
  show "\<bar>Opening_Balance r + Drawdown r - Principal_Repayment r - Closing_Balance r\<bar> \<le> 1 / 10 ^ 6"
    by simp
qed

lemma example_loan_schedule_value:
  "create_loan_schedule example_loan example_calendar = Inr example_loan_schedule"
  by code_simp

theorem rollforward_identity_witness:
  "create_loan_schedule example_loan example_calendar = Inr example_loan_schedule
   \<and> \<bar>Opening_Balance (example_loan_schedule ! 1) + Drawdown (example_loan_schedule ! 1)
        - Principal_Repayment (example_loan_schedule ! 1)
        - Closing_Balance (example_loan_schedule ! 1)\<bar> \<le> 1 / 10 ^ 6"
proof -
  have "example_loan_schedule ! 1 \<in> set example_loan_schedule"
    by (simp add: example_loan_schedule_def)
  with rollforward_identity [OF example_loan_schedule_value] example_loan_schedule_value
  show ?thesis by blast
qed

subsection \<open>The revolver schedule\<close>

lemma getitem_conv:
  "ebind (getitem r name) f = Inr x \<longleftrightarrow> (\<exists>v. r name = Some v \<and> f v = Inr x)"
  by (auto simp: getitem_def split: option.splits)

text \<open>
  C7. A revolving row whose fields convert yields a schedule over the
  calendar with opening balance, draw, repayment and closing balance 0 in
  every month, and interest 0.5 * principal * monthly rate in the months
  from \<open>Draw_Start_M\<close> to \<open>Tenor_Months\<close>, 0 in the others. For principal
  2000, 12 percent a year, draw start 7 and tenor 36 on a calendar of 60
  months the interest is 10 in months 7 to 36 and 0 elsewhere.
\<close>

theorem revolver_schedule_values:
  "(ebind (getitem r ''Principal'') py_float = Inr pr
    \<and> ebind (getitem r ''Rate_Pct'') py_float = Inr rp
    \<and> ebind (getitem r ''Tenor_Months'') py_int = Inr tn
    \<and> ebind (getitem r ''Draw_Start_M'') py_int = Inr ds
    \<and> ebind (getitem r ''Line_ID'') py_int = Inr lid
    \<and> ebind (getitem r ''Currency'') py_str = Inr ccy
    \<longrightarrow> (\<exists>rs. create_revolver_schedule r cal = Inr rs \<and> length rs = length cal
         \<and> (\<forall>i < length cal.
               rv_Month_Index (rs ! i) = cal ! i
             \<and> rv_Opening_Balance (rs ! i) = 0 \<and> rv_Drawdown (rs ! i) = 0
             \<and> rv_Repayment (rs ! i) = 0 \<and> rv_Closing_Balance (rs ! i) = 0
             \<and> rv_Interest_Accrued (rs ! i)
                 = (if ds \<le> cal ! i \<and> cal ! i \<le> tn then 0.5 * pr * (rp / 100 / 12) else 0))))
   \<and> (\<exists>rs. create_revolver_schedule example_revolver [1..60] = Inr rs
         \<and> map rv_Interest_Accrued rs = replicate 6 0 @ replicate 30 10 @ replicate 24 0
         \<and> (\<forall>x \<in> set rs. rv_Opening_Balance x = 0 \<and> rv_Drawdown x = 0
               \<and> rv_Repayment x = 0 \<and> rv_Closing_Balance x = 0))"
proof (intro conjI impI)
  assume "ebind (getitem r ''Principal'') py_float = Inr pr
    \<and> ebind (getitem r ''Rate_Pct'') py_float = Inr rp
    \<and> ebind (getitem r ''Tenor_Months'') py_int = Inr tn
    \<and> ebind (getitem r ''Draw_Start_M'') py_int = Inr ds
    \<and> ebind (getitem r ''Line_ID'') py_int = Inr lid
    \<and> ebind (getitem r ''Currency'') py_str = Inr ccy"
  then show "\<exists>rs. create_revolver_schedule r cal = Inr rs \<and> length rs = length cal
         \<and> (\<forall>i < length cal.
               rv_Month_Index (rs ! i) = cal ! i
             \<and> rv_Opening_Balance (rs ! i) = 0 \<and> rv_Drawdown (rs ! i) = 0
             \<and> rv_Repayment (rs ! i) = 0 \<and> rv_Closing_Balance (rs ! i) = 0
             \<and> rv_Interest_Accrued (rs ! i)
                 = (if ds \<le> cal ! i \<and> cal ! i \<le> tn then 0.5 * pr * (rp / 100 / 12) else 0))"
    by (simp add: create_revolver_schedule_def)
next
  have "map (\<lambda>m. if 7 \<le> m \<and> m \<le> 36 then (10::real) else 0) [1..60]
      = replicate 6 0 @ replicate 30 10 @ replicate 24 0"
    by code_simp
  then show "\<exists>rs. create_revolver_schedule example_revolver [1..60] = Inr rs
         \<and> map rv_Interest_Accrued rs = replicate 6 0 @ replicate 30 10 @ replicate 24 0
         \<and> (\<forall>x \<in> set rs. rv_Opening_Balance x = 0 \<and> rv_Drawdown x = 0
               \<and> rv_Repayment x = 0 \<and> rv_Closing_Balance x = 0)"
    by (auto simp: create_revolver_schedule_def example_revolver_def getitem_def o_def cong: if_cong)
qed

lemma example_revolver_fields:
  "ebind (getitem example_revolver ''Principal'') py_float = Inr 2000"
  "ebind (getitem example_revolver ''Rate_Pct'') py_float = Inr 12"
  "ebind (getitem example_revolver ''Tenor_Months'') py_int = Inr 36"
  "ebind (getitem example_revolver ''Draw_Start_M'') py_int = Inr 7"
  "ebind (getitem example_revolver ''Line_ID'') py_int = Inr 4"
  "ebind (getitem example_revolver ''Currency'') py_str = Inr ''NAD''"
  by (simp_all add: example_revolver_def getitem_def)

theorem revolver_schedule_values_witness:
  "ebind (getitem example_revolver ''Principal'') py_float = Inr 2000
   \<and> ebind (getitem example_revolver ''Tenor_Months'') py_int = Inr 36
   \<and> ebind (getitem example_revolver ''Draw_Start_M'') py_int = Inr 7
   \<and> (\<exists>rs. create_revolver_schedule example_revolver [6, 7, 36, 37] = Inr rs
         \<and> rv_Interest_Accrued (rs ! 0) = 0 \<and> rv_Interest_Accrued (rs ! 1) = 10
         \<and> rv_Interest_Accrued (rs ! 2) = 10 \<and> rv_Interest_Accrued (rs ! 3) = 0)"
proof -
  note g = revolver_schedule_values [of example_revolver 2000 12 36 7 4 "''NAD''" "[6, 7, 36, 37]",
      THEN conjunct1, rule_format, OF conjI [OF example_revolver_fields(1)
        conjI [OF example_revolver_fields(2) conjI [OF example_revolver_fields(3)
        conjI [OF example_revolver_fields(4) conjI [OF example_revolver_fields(5)
        example_revolver_fields(6)]]]]]]
  from g obtain rs where rs: "create_revolver_schedule example_revolver [6, 7, 36, 37] = Inr rs"
    and v: "\<And>i. i < length [6, 7, 36, 37 :: int] \<Longrightarrow> rv_Interest_Accrued (rs ! i)
                = (if 7 \<le> [6, 7, 36, 37 :: int] ! i \<and> [6, 7, 36, 37 :: int] ! i \<le> 36
                   then 0.5 * 2000 * (12 / 100 / 12) else 0)"
    by blast
  have "rv_Interest_Accrued (rs ! 0) = 0" using v [of 0] by simp
  moreover have "rv_Interest_Accrued (rs ! 1) = 10" using v [of 1] by simp
  moreover have "rv_Interest_Accrued (rs ! 2) = 10" using v [of 2] by simp
  moreover have "rv_Interest_Accrued (rs ! 3) = 0" using v [of 3] by simp
  ultimately show ?thesis
    using rs example_revolver_fields by blast
qed

subsection \<open>The policy text\<close>

lemma normalise_annuity: "str_lower (str_strip ''annuity'') = ''annuity''"
  by code_simp

lemma get_default_upd_other [simp]:
  "name \<noteq> k \<Longrightarrow> get_default (r(k \<mapsto> v)) name d = get_default r name d"
  by (simp add: get_default_def)

lemma get_default_upd_same [simp]: "get_default (r(k \<mapsto> v)) k d = v"
  by (simp add: get_default_def)

lemma ival_upd_other [simp]: "name \<noteq> k \<Longrightarrow> ival (r(k \<mapsto> v)) name d = ival r name d"
  by (simp add: ival_def)

lemma fval_upd_other [simp]: "name \<noteq> k \<Longrightarrow> fval (r(k \<mapsto> v)) name d = fval r name d"
  by (simp add: fval_def)

lemma read_loan_inputs_policy:
  assumes "py_str (get_default lp ''Amort_Type'' (PStr ''annuity'')) = Inr s"
  shows "read_loan_inputs (lp(''Amort_Type'' \<mapsto> PStr ''annuity'')) cal
       = map_sum id (\<lambda>p. p\<lparr> amort_type := ''annuity'' \<rparr>) (read_loan_inputs lp cal)"
  using assms
  by (simp add: read_loan_inputs_def ebind_def normalise_annuity split: sum.splits)

lemma policy_upd [simp]:
  "r_m (p\<lparr> amort_type := a \<rparr>) = r_m p"
  "draw (p\<lparr> amort_type := a \<rparr>) m = draw p m"
  "interest (p\<lparr> amort_type := a \<rparr>) st m = interest p st m"
  "amort_start (p\<lparr> amort_type := a \<rparr>) = amort_start p"
  "amort_nper (p\<lparr> amort_type := a \<rparr>) = amort_nper p"
  by (simp_all add: r_m_def draw_def draw_months_def monthly_draw_def interest_def
      amort_start_def amort_nper_def)

lemma annuity_branch_policy [simp]:
  "annuity_branch (p\<lparr> amort_type := a \<rparr>) st m pv = annuity_branch p st m pv"
  by (simp add: annuity_branch_def cong: if_cong option.case_cong)

lemma month_step_unknown_policy:
  assumes "amort_type p \<noteq> ''annuity''" "amort_type p \<noteq> ''straight''" "amort_type p \<noteq> ''bullet''"
  shows "month_step (p\<lparr> amort_type := ''annuity'' \<rparr>) st m = month_step p st m"
  using assms by (simp add: month_step_def)

lemma loan_loop_unknown_policy:
  assumes "amort_type p \<noteq> ''annuity''" "amort_type p \<noteq> ''straight''" "amort_type p \<noteq> ''bullet''"
  shows "loan_loop (p\<lparr> amort_type := ''annuity'' \<rparr>) st ms = loan_loop p st ms"
  by (induction ms arbitrary: st)
    (simp_all add: month_step_unknown_policy [OF assms] split: sum.splits prod.splits)

text \<open>
  C9, as amended. The policy is read with \<open>str(...).strip().lower()\<close>. For
  every row whose policy text, trimmed and lower-cased, is none of
  \<open>annuity\<close>, \<open>straight\<close>, \<open>bullet\<close>, the result of \<open>create_loan_schedule\<close> (the
  schedule, in every column and period, or the exception) is the result for
  the same row with the policy set to \<open>annuity\<close>.
\<close>

theorem unknown_policy_is_annuity:
  assumes "py_str (get_default loan_params ''Amort_Type'' (PStr ''annuity'')) = Inr s"
    and "str_lower (str_strip s) \<notin> {''annuity'', ''straight'', ''bullet''}"
  shows "create_loan_schedule loan_params calendar
       = create_loan_schedule (loan_params(''Amort_Type'' \<mapsto> PStr ''annuity'')) calendar"
proof (cases "read_loan_inputs loan_params calendar")
  case (Inl e)
  then show ?thesis
    by (simp add: create_loan_schedule_def read_loan_inputs_policy [OF assms(1)])
next
  case (Inr p)
  with assms have "amort_type p = str_lower (str_strip s)"
    by (auto simp: read_loan_inputs_def ebind_def split: sum.splits)
  with assms(2) have "loan_rows (p\<lparr> amort_type := ''annuity'' \<rparr>) = loan_rows p"
    by (simp add: loan_rows_def loan_loop_unknown_policy)
  with Inr show ?thesis
    by (simp add: create_loan_schedule_def read_loan_inputs_policy [OF assms(1)])
qed

theorem unknown_policy_is_annuity_witness:
  "py_str (get_default (example_loan(''Amort_Type'' \<mapsto> PStr ''balloon'')) ''Amort_Type''
      (PStr ''annuity'')) = Inr ''balloon''
   \<and> str_lower (str_strip ''balloon'') \<notin> {''annuity'', ''straight'', ''bullet''}
   \<and> create_loan_schedule (example_loan(''Amort_Type'' \<mapsto> PStr ''balloon'')) example_calendar
       = Inr example_loan_schedule"
proof -
  have h1: "py_str (get_default (example_loan(''Amort_Type'' \<mapsto> PStr ''balloon'')) ''Amort_Type''
      (PStr ''annuity'')) = Inr ''balloon''"
    by simp
  have h2: "str_lower (str_strip ''balloon'') \<notin> {''annuity'', ''straight'', ''bullet''}"
    by code_simp
  have e: "example_loan(''Amort_Type'' \<mapsto> PStr ''balloon'', ''Amort_Type'' \<mapsto> PStr ''annuity'')
      = example_loan"
    by (simp add: example_loan_def)
  from unknown_policy_is_annuity [OF h1 h2, of example_calendar] e example_loan_schedule_value
  have "create_loan_schedule (example_loan(''Amort_Type'' \<mapsto> PStr ''balloon'')) example_calendar
       = Inr example_loan_schedule"
    by simp
  with h1 h2 show ?thesis by blast
qed

text \<open>
  C9 as stated fails: the text \<open>BULLET\<close> is none of the three lower-case names,
  and its schedule is the bullet schedule, not the annuity schedule.
\<close>

theorem uppercase_policy_counterexample:
  "''BULLET'' \<notin> {''annuity'', ''straight'', ''bullet''}
   \<and> create_loan_schedule (example_loan(''Amort_Type'' \<mapsto> PStr ''BULLET'')) example_calendar
       \<noteq> create_loan_schedule (example_loan(''Amort_Type'' \<mapsto> PStr ''annuity'')) example_calendar"
proof -
  have "create_loan_schedule (example_loan(''Amort_Type'' \<mapsto> PStr ''BULLET'')) example_calendar
      = Inr [\<lparr> Month_Index = 1, Opening_Balance = 0, Drawdown = 1200, Interest_Accrued = 0,
                Principal_Repayment = 0, Closing_Balance = 1200 \<rparr>,
             \<lparr> Month_Index = 2, Opening_Balance = 1200, Drawdown = 0, Interest_Accrued = 12,
                Principal_Repayment = 0, Closing_Balance = 1200 \<rparr>,
             \<lparr> Month_Index = 3, Opening_Balance = 1200, Drawdown = 0, Interest_Accrued = 12,
                Principal_Repayment = 1200, Closing_Balance = 0 \<rparr>,
             \<lparr> Month_Index = 4, Opening_Balance = 0, Drawdown = 0, Interest_Accrued = 0,
                Principal_Repayment = 0, Closing_Balance = 0 \<rparr>]"
    by code_simp
  moreover have "example_loan(''Amort_Type'' \<mapsto> PStr ''annuity'') = example_loan"
    by (simp add: example_loan_def)
  ultimately show ?thesis
    by (simp add: example_loan_schedule_value example_loan_schedule_def)
qed

subsection \<open>Malformed numeric fields\<close>

lemma fval_malformed:
  "float_raises (get_default lp name (PFloat d)) \<Longrightarrow> fval lp name d = Inr d"
  by (auto simp: float_raises_def fval_def)

lemma ival_empty:
  "lp name = Some PNone \<or> lp name = Some (PStr []) \<Longrightarrow> ival lp name k = Inr k"
  by (auto simp: ival_def get_default_def int_literal_def literal_strip_def split_sign_def)

lemma annuity_payment_zero_rate: "\<exists>a. annuity_payment pv 0 n = Inr a"
  by (simp add: annuity_payment_def double_1e_12_def)

lemma month_step_zero_rate:
  "r_m p = 0 \<Longrightarrow> \<exists>r st'. month_step p st m = Inr (r, st')"
  using annuity_payment_zero_rate [of "case pv_at_amort_start st of None \<Rightarrow> opening_bal st m + 0 | Some v \<Rightarrow> v" "amort_nper p"]
  by (auto simp: month_step_def annuity_branch_def write_row_def Let_def split: option.splits)

lemma loan_loop_zero_rate:
  "r_m p = 0 \<Longrightarrow> \<exists>rs. loan_loop p st ms = Inr rs"
proof (induction ms arbitrary: st)
  case Nil
  then show ?case by simp
next
  case (Cons m ms)
  from month_step_zero_rate [OF Cons.prems] obtain r st' where "month_step p st m = Inr (r, st')"
    by blast
  moreover from Cons.IH [OF Cons.prems] obtain rs where "loan_loop p st' ms = Inr rs"
    by blast
  ultimately show ?case by simp
qed

text \<open>
  C6, as amended. A \<open>Principal\<close> or \<open>Rate_Pct\<close> value on which \<open>float\<close> raises is
  replaced by the default 0.0 without raising. A \<open>Tenor_Months\<close>,
  \<open>Draw_Start_M\<close>, \<open>Draw_End_M\<close> or \<open>Grace_Principal_M\<close> value that is \<open>None\<close> or
  the empty string is replaced by the field's default without raising: the
  horizon, 1, the draw start and 0. A row in which all six fields are
  malformed in this way is read as principal 0, rate 0, tenor = horizon,
  draw start 1, grace 0, and \<open>create_loan_schedule\<close> returns a schedule of
  horizon rows for it.
\<close>

theorem malformed_numeric_fields:
  "(float_raises (get_default loan_params name (PFloat d)) \<longrightarrow> fval loan_params name d = Inr d)
   \<and> (loan_params field = Some PNone \<or> loan_params field = Some (PStr [])
        \<longrightarrow> ival loan_params field k = Inr k)
   \<and> (calendar_horizon calendar = Inr hz
        \<and> float_raises (get_default loan_params ''Principal'' (PFloat 0))
        \<and> float_raises (get_default loan_params ''Rate_Pct'' (PFloat 0))
        \<and> (\<forall>n \<in> set [''Tenor_Months'', ''Draw_Start_M'', ''Draw_End_M'', ''Grace_Principal_M''].
              loan_params n = Some PNone \<or> loan_params n = Some (PStr []))
        \<and> py_str (get_default loan_params ''Amort_Type'' (PStr ''annuity'')) = Inr s
      \<longrightarrow> read_loan_inputs loan_params calendar
            = Inr \<lparr> horizon = hz, principal = 0, rate_pct = 0, tenor = max hz 0,
                    draw_start = 1, draw_end = max 0 (min 1 (min (max hz 0) hz)),
                    grace_prin_m = 0, amort_type = str_lower (str_strip s) \<rparr>
          \<and> (\<exists>rs. create_loan_schedule loan_params calendar = Inr rs \<and> length rs = nat hz))"
proof (intro conjI impI)
  assume "float_raises (get_default loan_params name (PFloat d))"
  then show "fval loan_params name d = Inr d" by (rule fval_malformed)
next
  assume "loan_params field = Some PNone \<or> loan_params field = Some (PStr [])"
  then show "ival loan_params field k = Inr k" by (rule ival_empty)
next
  assume a: "calendar_horizon calendar = Inr hz
        \<and> float_raises (get_default loan_params ''Principal'' (PFloat 0))
        \<and> float_raises (get_default loan_params ''Rate_Pct'' (PFloat 0))
        \<and> (\<forall>n \<in> set [''Tenor_Months'', ''Draw_Start_M'', ''Draw_End_M'', ''Grace_Principal_M''].
              loan_params n = Some PNone \<or> loan_params n = Some (PStr []))
        \<and> py_str (get_default loan_params ''Amort_Type'' (PStr ''annuity'')) = Inr s"
  then have f: "fval loan_params ''Principal'' 0 = Inr 0" "fval loan_params ''Rate_Pct'' 0 = Inr 0"
    by (simp_all add: fval_malformed)
  from a have i: "\<And>k. ival loan_params ''Tenor_Months'' k = Inr k"
    "\<And>k. ival loan_params ''Draw_Start_M'' k = Inr k"
    "\<And>k. ival loan_params ''Draw_End_M'' k = Inr k"
    "\<And>k. ival loan_params ''Grace_Principal_M'' k = Inr k"
    by (simp_all add: ival_empty)
  from a f i show r: "read_loan_inputs loan_params calendar
            = Inr \<lparr> horizon = hz, principal = 0, rate_pct = 0, tenor = max hz 0,
                    draw_start = 1, draw_end = max 0 (min 1 (min (max hz 0) hz)),
                    grace_prin_m = 0, amort_type = str_lower (str_strip s) \<rparr>"
    by (simp add: read_loan_inputs_def)
  define p where "p = \<lparr> horizon = hz, principal = 0, rate_pct = 0, tenor = max hz 0,
                    draw_start = 1, draw_end = max 0 (min 1 (min (max hz 0) hz)),
                    grace_prin_m = 0, amort_type = str_lower (str_strip s) \<rparr>"
  have "r_m p = 0" by (simp add: r_m_def p_def)
  from loan_loop_zero_rate [OF this] obtain rs where
    l: "loan_loop p loop_start [1..horizon p] = Inr rs"
    by blast
  from loan_loop_steps [OF l] have "length rs = nat hz"
    by (simp add: p_def)
  with l r show "\<exists>rs. create_loan_schedule loan_params calendar = Inr rs \<and> length rs = nat hz"
    by (simp add: create_loan_schedule_def loan_rows_def p_def)
qed


theorem malformed_numeric_fields_witness:
  "float_raises (get_default example_malformed ''Principal'' (PFloat 0))
   \<and> fval example_malformed ''Principal'' 0 = Inr 0
   \<and> example_malformed ''Tenor_Months'' = Some (PStr [])
   \<and> ival example_malformed ''Tenor_Months'' 4 = Inr 4
   \<and> calendar_horizon example_calendar = Inr 4
   \<and> float_raises (get_default example_malformed ''Rate_Pct'' (PFloat 0))
   \<and> py_str (get_default example_malformed ''Amort_Type'' (PStr ''annuity'')) = Inr ''annuity''
   \<and> (\<exists>rs. create_loan_schedule example_malformed example_calendar = Inr rs
          \<and> length rs = nat 4)"
proof -
  have h1: "float_raises (get_default example_malformed ''Principal'' (PFloat 0))"
    unfolding float_raises_def by code_simp
  have h2: "example_malformed ''Tenor_Months'' = Some (PStr [])"
    by (simp add: example_malformed_def)
  have h3: "calendar_horizon example_calendar = Inr 4"
    by (simp add: calendar_horizon_def example_calendar_def)
  have h4: "float_raises (get_default example_malformed ''Rate_Pct'' (PFloat 0))"
    by (simp add: float_raises_def example_malformed_def get_default_def)
  have h5: "\<forall>n \<in> set [''Tenor_Months'', ''Draw_Start_M'', ''Draw_End_M'', ''Grace_Principal_M''].
          example_malformed n = Some PNone \<or> example_malformed n = Some (PStr [])"
    by (simp add: example_malformed_def)
  have h6: "py_str (get_default example_malformed ''Amort_Type'' (PStr ''annuity'')) = Inr ''annuity''"
    by (simp add: example_malformed_def get_default_def)
  note t = malformed_numeric_fields [where loan_params = example_malformed
      and name = "''Principal''" and d = 0 and field = "''Tenor_Months''" and k = 4
      and calendar = example_calendar and hz = 4 and s = "''annuity''"]
  from t h1 have c1: "fval example_malformed ''Principal'' 0 = Inr 0"
    by blast
  from t h2 have c2: "ival example_malformed ''Tenor_Months'' 4 = Inr 4"
    by blast
  from t h1 h3 h4 h5 h6
  have c3: "\<exists>rs. create_loan_schedule example_malformed example_calendar = Inr rs
          \<and> length rs = nat 4"
    by blast
  from h1 h2 h3 h4 h6 c1 c2 c3 show ?thesis by blast
qed

text \<open>
  C6 as stated fails: an empty \<open>Tenor_Months\<close> is not read as 0 but as the
  horizon, and the schedule is not the schedule of tenor 0.
\<close>

theorem empty_tenor_counterexample:
  "ival (example_loan(''Tenor_Months'' \<mapsto> PStr [])) ''Tenor_Months'' 4 = Inr 4
   \<and> create_loan_schedule (example_loan(''Tenor_Months'' \<mapsto> PStr [])) example_calendar
       \<noteq> create_loan_schedule (example_loan(''Tenor_Months'' \<mapsto> PInt 0)) example_calendar"
proof -
  have "ival (example_loan(''Tenor_Months'' \<mapsto> PStr [])) ''Tenor_Months'' 4 = Inr 4"
    by (simp add: ival_empty)
  moreover have "map_sum id (map Drawdown)
        (create_loan_schedule (example_loan(''Tenor_Months'' \<mapsto> PStr [])) example_calendar)
      = Inr [1200, 0, 0, 0]"
    by code_simp
  moreover have "map_sum id (map Drawdown)
        (create_loan_schedule (example_loan(''Tenor_Months'' \<mapsto> PInt 0)) example_calendar)
      = Inr [0, 0, 0, 0]"
    by code_simp
  ultimately show ?thesis by auto
qed

text \<open>
  Text that is not a number in an integer field is outside the amended
  statement: \<open>_ival\<close> retries with \<open>float\<close> inside its handler, and the
  \<open>ValueError\<close> of that call leaves \<open>create_loan_schedule\<close>.
\<close>

lemma text_in_integer_field_raises:
  "create_loan_schedule (example_loan(''Tenor_Months'' \<mapsto> PStr ''abc'')) example_calendar
     = Inl ValueError"
  by code_simp

subsection \<open>The inputs after reading, and the amortization window\<close>

lemma read_loan_inputs_sanitized:
  "read_loan_inputs lp cal = Inr p \<Longrightarrow> sanitized p"
  by (auto simp: read_loan_inputs_def ebind_eq_Inr sanitized_def)

lemma nth_upto_month: "k < nat h \<Longrightarrow> [1..h] ! k = 1 + int k"
  by (simp add: nth_upto)

lemma length_upto_months: "length [1..h] = nat h"
  by simp

lemma month_step_annuity_repay_nonneg:
  assumes "month_step p st m = Inr (r, st')" "amort_type p = ''annuity''"
  shows "0 \<le> Principal_Repayment r"
  using assms
  by (auto simp: month_step_def annuity_branch_def Let_def ebind_eq_Inr write_row_eq
      split: if_splits)

lemma window_no_draw:
  assumes "sanitized p" "amort_start p \<le> m" "m < tenor p"
  shows "draw p m = 0" and "1 \<le> m"
  using assms by (auto simp: sanitized_def amort_start_def draw_def min_def split: if_splits)

lemma example_loan_inputs_value:
  "read_loan_inputs example_loan example_calendar = Inr example_loan_inputs"
  by code_simp

section \<open>The balance at the tenor month\<close>

subsection \<open>When a schedule is produced\<close>




subsection \<open>The plug at the tenor month\<close>




subsection \<open>Straight and bullet loans keep a balance that is not negative\<close>











subsection \<open>Terminal clearance\<close>




text \<open>
  Under the annuity policy a positive principal does not keep the balance
  from falling below zero before the tenor month: at -1800 percent a year
  the example loan has the monthly rate -3/2 and the payment 600, repays
  \<open>600 - (-1800) = 2400\<close> in month 2, opens month 3 at -1200 and closes it at
  -1200. Every value of this run is a double, so the run is the same in
  floating point.
\<close>

lemma annuity_negative_rate_not_cleared:
  "map_sum id (\<lambda>rs. (Principal_Repayment (rs ! 1), Opening_Balance (rs ! 2),
                       Closing_Balance (rs ! 2)))
       (create_loan_schedule (example_loan(''Rate_Pct'' \<mapsto> PFloat (- 1800))) example_calendar)
     = Inr (2400, - 1200, - 1200)"
  by code_simp

section \<open>Interest under the annuity policy\<close>

text \<open>
  C8, as amended. For a loan under the annuity policy whose rate is not
  negative, once the amortization window has begun the interest accrued
  does not increase from a month \<open>m\<close> of the schedule to the next: inside the
  window (\<open>m\<close> before the tenor) and after the tenor always, and from the
  tenor month to the next when the tenor month opens at a balance that is
  not negative.
\<close>

theorem annuity_interest_nonincreasing:
  assumes "read_loan_inputs loan_params calendar = Inr p"
    and "create_loan_schedule loan_params calendar = Inr rs"
    and "amort_type p = ''annuity''"
    and "0 \<le> rate_pct p"
    and "amort_start p \<le> m" and "1 \<le> m" and "m < horizon p"
    and "m \<noteq> tenor p \<or> 0 \<le> Opening_Balance (rs ! nat (m - 1))"
  shows "Month_Index (rs ! nat (m - 1)) = m \<and> Month_Index (rs ! nat m) = m + 1
       \<and> Interest_Accrued (rs ! nat m) \<le> Interest_Accrued (rs ! nat (m - 1))"
proof -
  have san: "sanitized p" using assms(1) by (rule read_loan_inputs_sanitized)
  note m1 = assms(6)
  from assms(1,2) have l: "loan_loop p loop_start [1..horizon p] = Inr rs"
    by (simp add: create_loan_schedule_Inr)
  note steps = loan_loop_steps [OF l]
  let ?i = "nat (m - 1)" and ?j = "nat m"
  have ij: "?j = Suc ?i" "?i < nat (horizon p)" "?j < nat (horizon p)"
    using m1 assms(7) by simp_all
  from steps ij obtain sti sti' where
    si: "month_step p sti ([1..horizon p] ! ?i) = Inr (rs ! ?i, sti')"
    by (metis length_upto_months)
  from steps ij obtain stj stj' where
    sj: "month_step p stj ([1..horizon p] ! ?j) = Inr (rs ! ?j, stj')"
    and pj: "prev_closing stj = Closing_Balance (rs ! (?j - 1))"
    by (metis length_upto_months zero_less_Suc)
  have mi: "[1..horizon p] ! ?i = m" using m1 ij by (simp add: nth_upto_month)
  have mj: "[1..horizon p] ! ?j = m + 1" using m1 ij by (simp add: nth_upto_month)
  note ri = month_step_row [OF si [unfolded mi]]
  note rj = month_step_row [OF sj [unfolded mj]]
  have r0: "0 \<le> r_m p" using assms(4) by (simp add: r_m_def)
  have "Interest_Accrued (rs ! ?j) \<le> Interest_Accrued (rs ! ?i)"
  proof -
    consider (inside) "m < tenor p" | (at) "m = tenor p" | (after) "tenor p < m"
      by linarith
    then show ?thesis
    proof cases
      case inside
      from window_no_draw [OF san assms(5) inside] have d0: "draw p m = 0" by simp
      have rep: "0 \<le> Principal_Repayment (rs ! ?i)"
        using si [unfolded mi] assms(3) by (rule month_step_annuity_repay_nonneg)
      have oj: "Opening_Balance (rs ! ?j)
          = Opening_Balance (rs ! ?i) - Principal_Repayment (rs ! ?i)"
        using rj(2) pj ij(1) ri(5) ri(3) d0 m1 by (simp add: opening_bal_def)
      have "Interest_Accrued (rs ! ?j) = Opening_Balance (rs ! ?j) * r_m p"
        using rj(4) rj(2) m1 inside by (simp add: interest_def)
      moreover have "Interest_Accrued (rs ! ?i) = Opening_Balance (rs ! ?i) * r_m p"
        using ri(4) ri(2) m1 inside by (simp add: interest_def)
      moreover have "(Opening_Balance (rs ! ?i) - Principal_Repayment (rs ! ?i)) * r_m p
          \<le> Opening_Balance (rs ! ?i) * r_m p"
        using rep r0 by (simp add: mult_right_mono)
      ultimately show ?thesis using oj by simp
    next
      case at
      with assms(8) have "0 \<le> Opening_Balance (rs ! ?i)" by simp
      moreover have "Interest_Accrued (rs ! ?i) = Opening_Balance (rs ! ?i) * r_m p"
        using ri(4) ri(2) m1 at by (simp add: interest_def)
      moreover have "Interest_Accrued (rs ! ?j) = 0"
        using rj(4) at by (simp add: interest_def)
      ultimately show ?thesis using r0 by simp
    next
      case after
      have "Interest_Accrued (rs ! ?i) = 0"
        using ri(4) after by (simp add: interest_def)
      moreover have "Interest_Accrued (rs ! ?j) = 0"
        using rj(4) after by (simp add: interest_def)
      ultimately show ?thesis by simp
    qed
  qed
  with ri(1) rj(1) show ?thesis by simp
qed

theorem annuity_interest_nonincreasing_witness:
  "read_loan_inputs example_loan example_calendar = Inr example_loan_inputs
   \<and> create_loan_schedule example_loan example_calendar = Inr example_loan_schedule
   \<and> amort_type example_loan_inputs = ''annuity''
   \<and> 0 \<le> rate_pct example_loan_inputs
   \<and> amort_start example_loan_inputs \<le> 2 \<and> (1::int) \<le> 2
   \<and> 2 < horizon example_loan_inputs
   \<and> 2 < tenor example_loan_inputs
   \<and> Interest_Accrued (example_loan_schedule ! nat 2)
       \<le> Interest_Accrued (example_loan_schedule ! nat (2 - 1))
   \<and> amort_start example_loan_inputs \<le> 3 \<and> (1::int) \<le> 3
   \<and> 3 < horizon example_loan_inputs
   \<and> tenor example_loan_inputs = 3
   \<and> 0 \<le> Opening_Balance (example_loan_schedule ! nat (3 - 1))
   \<and> Interest_Accrued (example_loan_schedule ! nat 3)
       \<le> Interest_Accrued (example_loan_schedule ! nat (3 - 1))"
proof -
  have h: "amort_type example_loan_inputs = ''annuity''" "0 \<le> rate_pct example_loan_inputs"
    by (simp_all add: example_loan_inputs_def)
  have h2: "amort_start example_loan_inputs \<le> 2" "(1::int) \<le> 2"
    "2 < horizon example_loan_inputs"
    by (simp_all add: example_loan_inputs_def amort_start_def)
  have h3: "amort_start example_loan_inputs \<le> 3" "(1::int) \<le> 3"
    "3 < horizon example_loan_inputs"
    by (simp_all add: example_loan_inputs_def amort_start_def)
  have d2: "2 < tenor example_loan_inputs"
    by (simp add: example_loan_inputs_def)
  have d3: "tenor example_loan_inputs = 3"
    by (simp add: example_loan_inputs_def)
  have o3: "0 \<le> Opening_Balance (example_loan_schedule ! nat (3 - 1))"
    by (simp add: example_loan_schedule_def)
  from d2 have c2: "2 \<noteq> tenor example_loan_inputs
      \<or> 0 \<le> Opening_Balance (example_loan_schedule ! nat (2 - 1))"
    by simp
  from o3 have c3: "3 \<noteq> tenor example_loan_inputs
      \<or> 0 \<le> Opening_Balance (example_loan_schedule ! nat (3 - 1))"
    by simp
  note a2 = annuity_interest_nonincreasing
    [OF example_loan_inputs_value example_loan_schedule_value h h2 c2]
  note a3 = annuity_interest_nonincreasing
    [OF example_loan_inputs_value example_loan_schedule_value h h3 c3]
  from a2 have i2: "Interest_Accrued (example_loan_schedule ! nat 2)
       \<le> Interest_Accrued (example_loan_schedule ! nat (2 - 1))"
    by blast
  from a3 have i3: "Interest_Accrued (example_loan_schedule ! nat 3)
       \<le> Interest_Accrued (example_loan_schedule ! nat (3 - 1))"
    by blast
  from example_loan_inputs_value example_loan_schedule_value h h2 d2 i2 h3 d3 o3 i3
  show ?thesis by (intro conjI)
qed

text \<open>
  C8 as stated fails for a negative rate: at -12 percent a year the example
  loan amortizes over months 2 and 3, and its interest rises from -12 in
  month 2 to -1188/199 in month 3.
\<close>

theorem negative_rate_interest_counterexample:
  "map_sum id (\<lambda>p. (amort_type p, amort_start p, tenor p))
       (read_loan_inputs (example_loan(''Rate_Pct'' \<mapsto> PFloat (- 12))) example_calendar)
     = Inr (''annuity'', 2, 3)
   \<and> map_sum id (map Interest_Accrued)
       (create_loan_schedule (example_loan(''Rate_Pct'' \<mapsto> PFloat (- 12))) example_calendar)
     = Inr [0, - 12, - (1188 / 199), 0]
   \<and> (- 12 :: real) < - (1188 / 199)"
proof -
  have "map_sum id (\<lambda>p. (amort_type p, amort_start p, tenor p))
       (read_loan_inputs (example_loan(''Rate_Pct'' \<mapsto> PFloat (- 12))) example_calendar)
     = Inr (''annuity'', 2, 3)"
    by code_simp
  moreover have "map_sum id (map Interest_Accrued)
       (create_loan_schedule (example_loan(''Rate_Pct'' \<mapsto> PFloat (- 12))) example_calendar)
     = Inr [0, - 12, - (1188 / 199), 0]"
    by code_simp
  ultimately show ?thesis by simp
qed

text \<open>
  The condition at the tenor month is needed: with principal -1200 at
  12 percent a year the example loan opens month 3, its tenor month, at a
  negative balance, and its interest rises from a negative amount in
  month 3 to 0 in month 4.
\<close>

lemma negative_balance_interest_rises_after_tenor:
  "map_sum id (\<lambda>rs. (Opening_Balance (rs ! 2) < 0, Interest_Accrued (rs ! 2) < 0,
                       Interest_Accrued (rs ! 3)))
       (create_loan_schedule (example_loan(''Principal'' \<mapsto> PFloat (- 1200))) example_calendar)
     = Inr (True, True, 0)"
  by code_simp

section \<open>Properties of \<open>create_financing_schedules\<close>\<close>

text \<open>
  C5, as amended. When the case selector has no row whose \<open>Key\<close> is
  \<open>PFinance_Case\<close>, \<open>create_financing_schedules\<close> fails with a \<open>KeyError\<close>, for
  every catalog and calendar; when the catalog has the required columns and
  the selector has its \<open>Key\<close> and \<open>Value\<close> columns, it is the \<open>KeyError\<close> that
  reports the missing row.
\<close>

theorem missing_case_row_raises_KeyError:
  assumes "\<forall>r \<in> set (rows pfinance_case_selector_df). r ''Key'' \<noteq> Some (PStr ''PFinance_Case'')"
  shows "(\<exists>msg. create_financing_schedules finance_stack_df pfinance_case_selector_df calendar
            = Inl (KeyError msg))
       \<and> (set req_cols \<subseteq> set (columns finance_stack_df)
            \<and> ''Key'' \<in> set (columns pfinance_case_selector_df)
            \<and> ''Value'' \<in> set (columns pfinance_case_selector_df)
          \<longrightarrow> create_financing_schedules finance_stack_df pfinance_case_selector_df calendar
                = Inl (KeyError ''PFinance_Case_Selector is missing the 'PFinance_Case' row.''))"
proof -
  from assms have "filter (\<lambda>r. r ''Key'' = Some (PStr ''PFinance_Case''))
                (rows pfinance_case_selector_df) = []"
    by (simp add: filter_empty_conv)
  then show ?thesis
    unfolding create_financing_schedules_def by auto
qed

theorem missing_case_row_raises_KeyError_witness:
  "rows example_selector_no_case = [[''Key'' \<mapsto> PStr ''Scenario'', ''Value'' \<mapsto> PStr ''Base'']]
   \<and> create_financing_schedules example_stack example_selector_no_case example_calendar
       = Inl (KeyError ''PFinance_Case_Selector is missing the 'PFinance_Case' row.'')"
proof -
  have h: "\<forall>r \<in> set (rows example_selector_no_case). r ''Key'' \<noteq> Some (PStr ''PFinance_Case'')"
    by (simp add: example_selector_no_case_def)
  have c: "set req_cols \<subseteq> set (columns example_stack)
            \<and> ''Key'' \<in> set (columns example_selector_no_case)
            \<and> ''Value'' \<in> set (columns example_selector_no_case)"
    by (simp add: example_stack_def example_selector_no_case_def)
  have r: "rows example_selector_no_case
      = [[''Key'' \<mapsto> PStr ''Scenario'', ''Value'' \<mapsto> PStr ''Base'']]"
    by (simp add: example_selector_no_case_def)
  from missing_case_row_raises_KeyError [OF h, of example_stack example_calendar] c r
  show ?thesis by blast
qed

text \<open>
  C5 as stated fails: the exception is Python's \<open>KeyError\<close>, not a
  \<open>ConfigurationError\<close>.
\<close>

theorem missing_case_row_not_ConfigurationError:
  "\<not> raises_ConfigurationError
       (create_financing_schedules example_stack example_selector_no_case example_calendar)"
  by (simp add: create_financing_schedules_def example_stack_def example_selector_no_case_def
      raises_ConfigurationError_def)

end
